theory Spec2Isabelle
  imports Complex_Main
begin

section \<open>Python values used by sky.py\<close>

text \<open>
  A Python \<open>str\<close> is a sequence of Unicode code points, so it is modelled as a list of
  code points (natural numbers); \<open>len\<close>, \<open>join\<close> and \<open>replace\<close> then count what Python
  counts. ASCII literals of the source are written with \<open>ascii\<close>; characters outside
  ASCII are given by their code point.

  Python floats are idealised as real numbers: \<open>+\<close>, \<open>-\<close>, \<open>*\<close>, \<open>/\<close>, \<open>math.sin\<close> and
  \<open>math.cos\<close> are the exact operations. Python integers are \<open>int\<close>.
\<close>

type_synonym pystr = "nat list"

definition ascii :: "string \<Rightarrow> pystr" where
  "ascii = map of_char"

datatype error = ValueError | IndexError

text \<open>The glyphs of the source, by code point.\<close>

definition newline :: nat where "newline = 10"
definition esc :: nat where "esc = 27"                \<comment> \<open>\<open>\033\<close>\<close>
definition backslash :: nat where "backslash = 92"
definition degree_sign :: nat where "degree_sign = 176"     \<comment> \<open>U+00B0\<close>
definition star_glyph :: nat where "star_glyph = 10022"     \<comment> \<open>U+2726, line 65\<close>
definition sun_glyph :: nat where "sun_glyph = 127774"      \<comment> \<open>U+1F31E, line 73\<close>
definition moon_glyph :: nat where "moon_glyph = 127765"    \<comment> \<open>U+1F315, line 80\<close>
definition asterisk :: nat where "asterisk = 42"            \<comment> \<open>\<open>*\<close>, line 113\<close>
definition old_sun_glyph :: nat where "old_sun_glyph = 9788"    \<comment> \<open>U+263C, line 114\<close>
definition old_moon_glyph :: nat where "old_moon_glyph = 9681"  \<comment> \<open>U+25D1, line 115\<close>

subsection \<open>Built-in functions\<close>

text \<open>\<open>round(v)\<close> of Python 3 on a float: the nearest integer, a tie going to the even one.\<close>

definition py_round :: "real \<Rightarrow> int" where
  "py_round v =
     (let f = \<lfloor>v\<rfloor>; d = v - of_int f
      in if d < 1 / 2 then f
         else if 1 / 2 < d then f + 1
         else if even f then f else f + 1)"

text \<open>\<open>math.radians\<close>.\<close>

definition radians :: "real \<Rightarrow> real" where
  "radians d = d * pi / 180"

text \<open>\<open>sep.join(parts)\<close> and \<open>s * k\<close> (empty for \<open>k \<le> 0\<close>).\<close>

fun str_join :: "pystr \<Rightarrow> pystr list \<Rightarrow> pystr" where
  "str_join sep [] = []"
| "str_join sep [p] = p"
| "str_join sep (p # q # ps) = p @ sep @ str_join sep (q # ps)"

definition str_mul :: "pystr \<Rightarrow> int \<Rightarrow> pystr" where
  "str_mul s k = concat (replicate (nat k) s)"

text \<open>
  \<open>s.replace(old, new)\<close>: the occurrences of \<open>old\<close> are found from the left and do not
  overlap; an empty \<open>old\<close> matches before every character and at the end.
\<close>

function str_replace :: "pystr \<Rightarrow> pystr \<Rightarrow> pystr \<Rightarrow> pystr" where
  "str_replace old new s =
     (if old = [] then new @ concat (map (\<lambda>c. c # new) s)
      else if s = [] then []
      else if take (length old) s = old
        then new @ str_replace old new (drop (length old) s)
      else hd s # str_replace old new (tl s))"
  by pat_completeness auto
termination
  by (relation "measure (\<lambda>(old, new, s). length s)") auto

declare str_replace.simps [simp del]

text \<open>Decimal digits of a natural number, and zero padding on the left.\<close>

fun digits :: "nat \<Rightarrow> pystr" where
  "digits n = (if n < 10 then [48 + n] else digits (n div 10) @ [48 + n mod 10])"

declare digits.simps [simp del]

definition zfill :: "nat \<Rightarrow> pystr \<Rightarrow> pystr" where
  "zfill w s = replicate (w - length s) 48 @ s"

text \<open>
  The format specification \<open>.Nf\<close> of an f-string: \<open>prec\<close> digits after the point, the value
  rounded to the nearest multiple of \<open>10^-prec\<close> (a tie to the even one), a minus sign
  for a negative value.
\<close>

definition format_f :: "nat \<Rightarrow> real \<Rightarrow> pystr" where
  "format_f prec v =
     (let m = nat (py_round (\<bar>v\<bar> * 10 ^ prec));
          whole = digits (m div 10 ^ prec);
          frac = zfill prec (digits (m mod 10 ^ prec))
      in (if v < 0 then ascii ''-'' else []) @ whole @
         (if prec = 0 then [] else ascii ''.'' @ frac))"

text \<open>
  \<open>datetime.strftime\<close> for the directives the source uses (\<open>%Y %m %d %H %M %S\<close>), each
  zero-padded to its width; any other character is copied.
\<close>

record utc_datetime =
  year :: nat
  month :: nat
  day :: nat
  hour :: nat
  minute :: nat
  second :: nat

definition directive :: "utc_datetime \<Rightarrow> char \<Rightarrow> pystr" where
  "directive t c =
     (if c = CHR ''Y'' then zfill 4 (digits (year t))
      else if c = CHR ''m'' then zfill 2 (digits (month t))
      else if c = CHR ''d'' then zfill 2 (digits (day t))
      else if c = CHR ''H'' then zfill 2 (digits (hour t))
      else if c = CHR ''M'' then zfill 2 (digits (minute t))
      else if c = CHR ''S'' then zfill 2 (digits (second t))
      else [of_char CHR ''%'', of_char c])"

fun strftime :: "utc_datetime \<Rightarrow> string \<Rightarrow> pystr" where
  "strftime t [] = []"
| "strftime t [c] = [of_char c]"
| "strftime t (c # d # cs) =
     (if c = CHR ''%'' then directive t d @ strftime t cs
      else of_char c # strftime t (d # cs))"

text \<open>\<open>print(s)\<close> appends \<open>s\<close> and a newline to standard output; \<open>file.write(s)\<close> appends \<open>s\<close>.\<close>

definition py_print :: "pystr \<Rightarrow> pystr \<Rightarrow> pystr" where
  "py_print out s = out @ s @ [newline]"

definition file_write :: "pystr \<Rightarrow> pystr \<Rightarrow> pystr" where
  "file_write content s = content @ s"

subsection \<open>The numpy array of the sky\<close>

text \<open>
  \<open>np.full((n, n), ' ')\<close> is an \<open>n \<times> n\<close> array of dtype \<open><U1\<close>: every cell holds a string
  of at most one code point, and a longer string is cut when stored. A negative
  dimension raises \<open>ValueError\<close>. An index \<open>i\<close> into an axis of length \<open>len\<close> is valid
  for \<open>-len \<le> i < len\<close>, a negative one counting from the end; any other raises
  \<open>IndexError\<close>.
\<close>

type_synonym sky_grid = "pystr list list"

definition np_full :: "int \<Rightarrow> pystr \<Rightarrow> error + sky_grid" where
  "np_full n fill =
     (if n < 0 then Inl ValueError
      else Inr (replicate (nat n) (replicate (nat n) (take 1 fill))))"

definition np_index :: "nat \<Rightarrow> int \<Rightarrow> error + nat" where
  "np_index len i =
     (if - int len \<le> i \<and> i < int len
      then Inr (nat (if i < 0 then i + int len else i))
      else Inl IndexError)"

definition setitem :: "sky_grid \<Rightarrow> int \<Rightarrow> int \<Rightarrow> pystr \<Rightarrow> error + sky_grid" where
  "setitem sky y x v =
     (case np_index (length sky) y of
        Inl e \<Rightarrow> Inl e
      | Inr j \<Rightarrow>
          (case np_index (length (sky ! j)) x of
             Inl e \<Rightarrow> Inl e
           | Inr i \<Rightarrow> Inr (sky[j := (sky ! j)[i := take 1 v]])))"

section \<open>generate\_star\_map\<close>

subsection \<open>What the run receives from outside\<close>

text \<open>
  The observer's location and the observing time are read from the user, and astropy
  computes every horizontal position. They are parameters here: \<open>transform_to env ra dec\<close>
  stands for \<open>SkyCoord(ra, dec).transform_to(AltAz(obstime, location))\<close>, \<open>sun env\<close> and
  \<open>moon env\<close> for the transformed \<open>get_sun\<close> and \<open>get_moon\<close>, \<open>observing_time env\<close> for
  \<open>observing_time.utc.datetime\<close>, and \<open>isatty env\<close> for \<open>sys.stdout.isatty()\<close>.
\<close>

record earth_location =
  lat_deg :: real
  lon_deg :: real

record altaz =
  az_deg :: real
  alt_deg :: real

record observation =
  location :: earth_location
  observing_time :: utc_datetime
  transform_to :: "pystr \<Rightarrow> pystr \<Rightarrow> altaz"
  sun :: altaz
  moon :: altaz
  isatty :: bool

text \<open>An entry of \<open>star_data\<close> and an entry of \<open>objects\<close>.\<close>

record catalog_star =
  star_name :: pystr
  ra :: pystr
  dec :: pystr

record sky_object =
  name :: pystr
  az :: real
  alt :: real
  symbol :: pystr

definition star_data :: "catalog_star list" where
  "star_data =
     [\<lparr>star_name = ascii ''Sirius'', ra = ascii ''06h45m08.917s'', dec = ascii ''-16d42m58.02s''\<rparr>,
      \<lparr>star_name = ascii ''Betelgeuse'', ra = ascii ''05h55m10.3053s'', dec = ascii ''07d24m25.430s''\<rparr>,
      \<lparr>star_name = ascii ''Rigel'', ra = ascii ''05h14m32.27210s'', dec = ascii ''-08d12m05.8981s''\<rparr>,
      \<lparr>star_name = ascii ''Vega'', ra = ascii ''18h36m56.33635s'', dec = ascii ''38d47m01.2802s''\<rparr>,
      \<lparr>star_name = ascii ''Altair'', ra = ascii ''19h50m47.00483s'', dec = ascii ''08d52m05.9566s''\<rparr>,
      \<lparr>star_name = ascii ''Polaris'', ra = ascii ''02h31m49.09456s'', dec = ascii ''89d15m50.7923s''\<rparr>,
      \<lparr>star_name = ascii ''Capella'', ra = ascii ''05h16m41.3587s'', dec = ascii ''45d59m52.768s''\<rparr>,
      \<lparr>star_name = ascii ''Aldebaran'', ra = ascii ''04h35m55.239s'', dec = ascii ''16d30m33.49s''\<rparr>,
      \<lparr>star_name = ascii ''Antares'', ra = ascii ''16h29m24.45970s'', dec = ascii ''-26d25m55.2094s''\<rparr>,
      \<lparr>star_name = ascii ''Spica'', ra = ascii ''13h25m11.579s'', dec = ascii ''-11d09m40.75s''\<rparr>,
      \<lparr>star_name = ascii ''Procyon'', ra = ascii ''07h39m18.1195s'', dec = ascii ''05d13m29.955s''\<rparr>,
      \<lparr>star_name = ascii ''Deneb'', ra = ascii ''20h41m25.91513s'', dec = ascii ''45d16m49.2197s''\<rparr>,
      \<lparr>star_name = ascii ''Canopus'', ra = ascii ''06h23m57.10988s'', dec = ascii ''-52d41m44.3810s''\<rparr>,
      \<lparr>star_name = ascii ''Arcturus'', ra = ascii ''14h15m39.67207s'', dec = ascii ''19d10m56.673s''\<rparr>,
      \<lparr>star_name = ascii ''Regulus'', ra = ascii ''10h08m22.3110s'', dec = ascii ''11d58m01.95s''\<rparr>]"

subsection \<open>Lines 56 to 81: the list of objects\<close>

definition star_object :: "catalog_star \<Rightarrow> altaz \<Rightarrow> sky_object" where
  "star_object star aa =
     \<lparr>name = star_name star, az = az_deg aa, alt = alt_deg aa, symbol = [star_glyph]\<rparr>"

definition sun_object :: "altaz \<Rightarrow> sky_object" where
  "sun_object aa = \<lparr>name = ascii ''Sun'', az = az_deg aa, alt = alt_deg aa, symbol = [sun_glyph]\<rparr>"

definition moon_object :: "altaz \<Rightarrow> sky_object" where
  "moon_object aa =
     \<lparr>name = ascii ''Moon'', az = az_deg aa, alt = alt_deg aa, symbol = [moon_glyph]\<rparr>"

text \<open>The loop over \<open>star_data\<close>; \<open>objects\<close> is the list built so far.\<close>

fun collect_stars ::
  "(pystr \<Rightarrow> pystr \<Rightarrow> altaz) \<Rightarrow> catalog_star list \<Rightarrow> sky_object list \<Rightarrow> sky_object list" where
  "collect_stars tr [] objects = objects"
| "collect_stars tr (star # rest) objects =
     (let aa = tr (ra star) (dec star)
      in if alt_deg aa > 0
         then collect_stars tr rest (objects @ [star_object star aa])
         else collect_stars tr rest objects)"

definition collect_objects ::
  "(pystr \<Rightarrow> pystr \<Rightarrow> altaz) \<Rightarrow> catalog_star list \<Rightarrow> altaz \<Rightarrow> altaz \<Rightarrow> sky_object list" where
  "collect_objects tr catalog s m =
     (let objects = collect_stars tr catalog [];
          objects = (if alt_deg s > - 18 then objects @ [sun_object s] else objects);
          objects = (if alt_deg m > 0 then objects @ [moon_object m] else objects)
      in objects)"

subsection \<open>Lines 83 to 100: the grid\<close>

text \<open>The polar to Cartesian conversion of lines 88 to 97 (\<open>alt_rad\<close> is computed but unused).\<close>

definition project :: "real \<Rightarrow> real \<Rightarrow> int \<Rightarrow> int \<times> int" where
  "project az_d alt_d grid_size =
     (let az_rad = radians az_d;
          r = (90 - alt_d) / 90 * (of_int grid_size / 2);
          x = of_int grid_size / 2 + r * sin az_rad;
          y = of_int grid_size / 2 - r * cos az_rad
      in (py_round x, py_round y))"

text \<open>The body of the loop of line 86, and the loop.\<close>

definition place_object :: "int \<Rightarrow> sky_grid \<Rightarrow> sky_object \<Rightarrow> error + sky_grid" where
  "place_object grid_size sky obj =
     (case project (az obj) (alt obj) grid_size of
        (x, y) \<Rightarrow>
          if 0 \<le> x \<and> x < grid_size \<and> 0 \<le> y \<and> y < grid_size
          then setitem sky y x (symbol obj)
          else Inr sky)"

fun place_objects :: "int \<Rightarrow> sky_grid \<Rightarrow> sky_object list \<Rightarrow> error + sky_grid" where
  "place_objects grid_size sky [] = Inr sky"
| "place_objects grid_size sky (obj # objs) =
     (case place_object grid_size sky obj of
        Inl e \<Rightarrow> Inl e
      | Inr sky' \<Rightarrow> place_objects grid_size sky' objs)"

definition build_sky :: "int \<Rightarrow> sky_object list \<Rightarrow> error + sky_grid" where
  "build_sky grid_size objects =
     (case np_full grid_size (ascii '' '') of
        Inl e \<Rightarrow> Inl e
      | Inr sky \<Rightarrow> place_objects grid_size sky objects)"

subsection \<open>Lines 102 to 115: the map as a string\<close>

fun append_rows :: "pystr list \<Rightarrow> sky_grid \<Rightarrow> pystr list" where
  "append_rows sky_rows [] = sky_rows"
| "append_rows sky_rows (row # rest) =
     append_rows (sky_rows @ [ascii ''|'' @ concat row @ ascii ''|'']) rest"

definition render :: "int \<Rightarrow> sky_grid \<Rightarrow> pystr" where
  "render grid_size sky =
     (let border = ascii ''+'' @ str_mul (ascii ''-'') grid_size @ ascii ''+'';
          sky_rows = [border];
          sky_rows = append_rows sky_rows sky;
          sky_rows = sky_rows @ [border]
      in str_join [newline] sky_rows)"

definition colorize :: "bool \<Rightarrow> bool \<Rightarrow> pystr \<Rightarrow> pystr" where
  "colorize color_output tty sky_map =
     (if color_output \<and> tty then
        (let sky_map = str_replace [asterisk]
               ([esc] @ ascii ''[93m'' @ [asterisk] @ [esc] @ ascii ''[0m'') sky_map;
             sky_map = str_replace [old_sun_glyph]
               ([esc] @ ascii ''[91m'' @ [old_sun_glyph] @ [esc] @ ascii ''[0m'') sky_map;
             sky_map = str_replace [old_moon_glyph]
               ([esc] @ ascii ''[96m'' @ [old_moon_glyph] @ [esc] @ ascii ''[0m'') sky_map
         in sky_map)
      else sky_map)"

subsection \<open>Lines 117 to 139: the report and the file\<close>

definition location_line :: "earth_location \<Rightarrow> pystr" where
  "location_line loc =
     ascii ''Location: '' @ format_f 4 (lat_deg loc) @ [degree_sign] @ ascii '' N, '' @
     format_f 4 (lon_deg loc) @ [degree_sign] @ ascii '' E''"

definition date_line :: "utc_datetime \<Rightarrow> pystr" where
  "date_line t = ascii ''Date and Time (UTC): '' @ strftime t ''%Y-%m-%d %H:%M:%S''"

definition legend_line :: "sky_object \<Rightarrow> pystr" where
  "legend_line obj =
     ascii ''- '' @ name obj @ ascii '' at Azimuth: '' @ format_f 2 (az obj) @ [degree_sign] @
     ascii '', Altitude: '' @ format_f 2 (alt obj) @ [degree_sign]"

fun print_legend :: "pystr \<Rightarrow> sky_object list \<Rightarrow> pystr" where
  "print_legend out [] = out"
| "print_legend out (obj # objs) = print_legend (py_print out (legend_line obj)) objs"

fun write_legend :: "pystr \<Rightarrow> sky_object list \<Rightarrow> pystr" where
  "write_legend content [] = content"
| "write_legend content (obj # objs) =
     write_legend (file_write content (legend_line obj @ [newline])) objs"

text \<open>Lines 118 to 126: what is printed before the file is considered.\<close>

definition print_report :: "observation \<Rightarrow> pystr \<Rightarrow> sky_object list \<Rightarrow> pystr" where
  "print_report env sky_map objects =
     (let out = py_print [] ([newline] @ ascii ''Star Map:'');
          out = py_print out (location_line (location env));
          out = py_print out (date_line (observing_time env));
          out = py_print out sky_map;
          out = py_print out ([newline] @ ascii ''Visible Objects:'')
      in print_legend out objects)"

definition file_name :: "utc_datetime \<Rightarrow> pystr" where
  "file_name t = ascii ''star_map_'' @ strftime t ''%Y%m%d_%H%M%S'' @ ascii ''.txt''"

text \<open>Lines 132 to 138: what is written to the file.\<close>

definition file_content :: "observation \<Rightarrow> pystr \<Rightarrow> sky_object list \<Rightarrow> pystr" where
  "file_content env sky_map objects =
     (let content = file_write []
            ([backslash] @ ascii ''033[1mStar Map:'' @ [backslash] @ ascii ''033[0m'' @ [newline]);
          content = file_write content (location_line (location env) @ [newline]);
          content = file_write content (date_line (observing_time env) @ [newline, newline]);
          content = file_write content (sky_map @ [newline, newline]);
          content = file_write content (ascii ''Visible Objects:'' @ [newline])
      in write_legend content objects)"

text \<open>
  The result of a run: everything printed from line 118 on, and the file written, if any,
  as its name and content.
\<close>

record run_output =
  stdout :: pystr
  saved :: "(pystr \<times> pystr) option"

definition generate_from ::
  "catalog_star list \<Rightarrow> observation \<Rightarrow> int \<Rightarrow> bool \<Rightarrow> bool \<Rightarrow> error + run_output" where
  "generate_from catalog env grid_size save_to_file color_output =
     (let objects = collect_objects (transform_to env) catalog (sun env) (moon env)
      in case build_sky grid_size objects of
           Inl e \<Rightarrow> Inl e
         | Inr sky \<Rightarrow>
             (let sky_map = colorize color_output (isatty env) (render grid_size sky);
                  out = print_report env sky_map objects
              in if save_to_file
                 then (let filename = file_name (observing_time env);
                           content = file_content env sky_map objects
                       in Inr \<lparr>stdout = py_print out
                                  ([newline] @ ascii ''Star map saved to '' @ filename),
                               saved = Some (filename, content)\<rparr>)
                 else Inr \<lparr>stdout = out, saved = None\<rparr>))"

definition generate_star_map :: "observation \<Rightarrow> int \<Rightarrow> bool \<Rightarrow> bool \<Rightarrow> error + run_output" where
  "generate_star_map = generate_from star_data"

section \<open>Notions used to state the properties\<close>

text \<open>The horizontal position astropy gives for a catalogue entry.\<close>

definition star_at :: "(pystr \<Rightarrow> pystr \<Rightarrow> altaz) \<Rightarrow> catalog_star \<Rightarrow> altaz" where
  "star_at tr star = tr (ra star) (dec star)"

text \<open>
  The visibility filter and the polar projector as sections 4.2 and 4.3 of the
  specification word them; \<open>round\<close> there is the rounding of the source language.
\<close>

datatype object_class = Star | Sun | Moon

fun spec_is_visible :: "object_class \<Rightarrow> real \<Rightarrow> bool" where
  "spec_is_visible Star altitude = (altitude > 0)"
| "spec_is_visible Sun altitude = (altitude > - 18)"
| "spec_is_visible Moon altitude = (altitude > 0)"



text \<open>
  A cell is a pair \<open>(x, y)\<close>; \<open>in_grid\<close> is the guard of line 99, \<open>cell_of\<close> the cell an
  object projects to, \<open>glyph_at sky (x, y)\<close> the content of \<open>sky[y, x]\<close>, and \<open>wf_grid\<close>
  says that the array has \<open>grid_size\<close> rows of \<open>grid_size\<close> cells.
\<close>

definition in_grid :: "int \<Rightarrow> int \<times> int \<Rightarrow> bool" where
  "in_grid grid_size c =
     (0 \<le> fst c \<and> fst c < grid_size \<and> 0 \<le> snd c \<and> snd c < grid_size)"

definition cell_of :: "int \<Rightarrow> sky_object \<Rightarrow> int \<times> int" where
  "cell_of grid_size obj = project (az obj) (alt obj) grid_size"

definition glyph_at :: "sky_grid \<Rightarrow> int \<times> int \<Rightarrow> pystr" where
  "glyph_at sky c = sky ! nat (snd c) ! nat (fst c)"

definition wf_grid :: "int \<Rightarrow> sky_grid \<Rightarrow> bool" where
  "wf_grid grid_size sky =
     (0 \<le> grid_size \<and> length sky = nat grid_size \<and>
      list_all (\<lambda>row. length row = nat grid_size) sky)"

text \<open>The effect of one pass of the loop of line 86 on an array of the right shape.\<close>

definition paint :: "int \<Rightarrow> sky_grid \<Rightarrow> sky_object \<Rightarrow> sky_grid" where
  "paint grid_size sky obj =
     (if in_grid grid_size (cell_of grid_size obj)
      then sky[nat (snd (cell_of grid_size obj)) :=
                 (sky ! nat (snd (cell_of grid_size obj)))
                   [nat (fst (cell_of grid_size obj)) := take 1 (symbol obj)]]
      else sky)"

text \<open>The objects of a list that project to a given cell, in processing order.\<close>

definition hits :: "int \<Rightarrow> int \<times> int \<Rightarrow> sky_object list \<Rightarrow> sky_object list" where
  "hits grid_size c objs = filter (\<lambda>obj. cell_of grid_size obj = c) objs"

text \<open>The pieces of the rendered map and of the legend.\<close>

definition blank :: pystr where
  "blank = ascii '' ''"

definition empty_sky :: "int \<Rightarrow> sky_grid" where
  "empty_sky n = replicate (nat n) (replicate (nat n) blank)"

definition border :: "int \<Rightarrow> pystr" where
  "border grid_size = ascii ''+'' @ replicate (nat grid_size) (of_char CHR ''-'') @ ascii ''+''"

definition grid_row :: "pystr list \<Rightarrow> pystr" where
  "grid_row row = ascii ''|'' @ concat row @ ascii ''|''"

definition legend_text :: "sky_object list \<Rightarrow> pystr" where
  "legend_text objs = concat (map (\<lambda>obj. legend_line obj @ [newline]) objs)"

text \<open>
  Every cell holds a blank or one of the three symbols; every object carries one of the
  three symbols.
\<close>

definition glyph_cells :: "sky_grid \<Rightarrow> bool" where
  "glyph_cells sky =
     list_all (list_all (\<lambda>cell. cell \<in> {blank, [star_glyph], [sun_glyph], [moon_glyph]})) sky"

definition known_symbols :: "sky_object list \<Rightarrow> bool" where
  "known_symbols objs =
     list_all (\<lambda>obj. symbol obj \<in> {[star_glyph], [sun_glyph], [moon_glyph]}) objs"

definition map_alphabet :: "nat set" where
  "map_alphabet =
     {of_char CHR ''+'', of_char CHR ''-'', of_char CHR ''|'', of_char CHR '' '', newline,
      star_glyph, sun_glyph, moon_glyph}"

text \<open>
  Observations used as concrete inputs: at Greenwich on 2024-03-01 21:30:05 UTC, with
  Vega at the zenith, or one degree above the eastern horizon, and everything else below
  its threshold.
\<close>

definition vega :: catalog_star where
  "vega = \<lparr>star_name = ascii ''Vega'', ra = ascii ''18h36m56.33635s'',
           dec = ascii ''38d47m01.2802s''\<rparr>"

definition night :: "altaz \<Rightarrow> observation" where
  "night vega_pos =
     \<lparr>location = \<lparr>lat_deg = 51.4769, lon_deg = - 0.0005\<rparr>,
      observing_time = \<lparr>year = 2024, month = 3, day = 1, hour = 21, minute = 30, second = 5\<rparr>,
      transform_to = (\<lambda>r d. if r = ra vega then vega_pos else \<lparr>az_deg = 10, alt_deg = - 5\<rparr>),
      sun = \<lparr>az_deg = 300, alt_deg = - 20\<rparr>,
      moon = \<lparr>az_deg = 120, alt_deg = - 3\<rparr>,
      isatty = True\<rparr>"

definition zenith :: altaz where
  "zenith = \<lparr>az_deg = 0, alt_deg = 90\<rparr>"

definition low_east :: altaz where
  "low_east = \<lparr>az_deg = 90, alt_deg = 1\<rparr>"

text \<open>
  What the run on \<open>night zenith\<close> with the catalogue \<open>[vega]\<close> and a grid of size 2 prints
  and writes: the map, the location and date lines, the legend, the console report and
  the content of the file.
\<close>

definition night_map_text :: pystr where
  "night_map_text =
     ascii ''+--+'' @ [newline] @
     ascii ''|  |'' @ [newline] @
     ascii ''| '' @ [star_glyph] @ ascii ''|'' @ [newline] @
     ascii ''+--+''"

definition night_body :: pystr where
  "night_body =
     ascii ''Location: 51.4769'' @ [degree_sign] @ ascii '' N, -0.0005'' @ [degree_sign] @
       ascii '' E'' @ [newline] @
     ascii ''Date and Time (UTC): 2024-03-01 21:30:05'' @ [newline]"

definition night_legend_text :: pystr where
  "night_legend_text =
     ascii ''Visible Objects:'' @ [newline] @
     ascii ''- Vega at Azimuth: 0.00'' @ [degree_sign] @ ascii '', Altitude: 90.00'' @
       [degree_sign, newline]"

definition night_report :: pystr where
  "night_report =
     [newline] @ ascii ''Star Map:'' @ [newline] @
     night_body @
     night_map_text @ [newline] @
     [newline] @ night_legend_text"

definition night_file :: pystr where
  "night_file =
     [backslash] @ ascii ''033[1mStar Map:'' @ [backslash] @ ascii ''033[0m'' @ [newline] @
     night_body @ [newline] @
     night_map_text @ [newline] @
     [newline] @ night_legend_text"

section \<open>Auxiliary facts\<close>

lemmas glyph_defs = newline_def esc_def backslash_def degree_sign_def star_glyph_def
  sun_glyph_def moon_glyph_def asterisk_def old_sun_glyph_def old_moon_glyph_def

subsection \<open>Rounding\<close>

lemma py_round_of_int: "py_round (of_int k) = k"
  by (simp add: py_round_def)

lemma py_round_lower: "of_int k \<le> v \<Longrightarrow> k \<le> py_round v"
proof -
  assume "of_int k \<le> v"
  then have "k \<le> \<lfloor>v\<rfloor>" by (simp add: le_floor_iff)
  then show ?thesis unfolding py_round_def Let_def by auto
qed

lemma py_round_upper: "v \<le> of_int k \<Longrightarrow> py_round v \<le> k"
proof -
  assume a: "v \<le> of_int k"
  show ?thesis
  proof (cases "v = of_int k")
    case True then show ?thesis by (simp add: py_round_of_int)
  next
    case False
    then have "v < of_int k" using a by simp
    then have "\<lfloor>v\<rfloor> < k" by (simp add: floor_less_iff)
    then show ?thesis unfolding py_round_def Let_def by auto
  qed
qed

subsection \<open>The loops as list functions\<close>

lemma collect_stars_eq:
  "collect_stars tr catalog objects =
     objects @ map (\<lambda>st. star_object st (star_at tr st))
                 (filter (\<lambda>st. alt_deg (star_at tr st) > 0) catalog)"
  by (induction catalog arbitrary: objects) (simp_all add: Let_def star_at_def)

lemma collect_objects_eq:
  "collect_objects tr catalog s m =
     map (\<lambda>st. star_object st (star_at tr st))
       (filter (\<lambda>st. alt_deg (star_at tr st) > 0) catalog)
     @ (if alt_deg s > - 18 then [sun_object s] else [])
     @ (if alt_deg m > 0 then [moon_object m] else [])"
  by (simp add: collect_objects_def collect_stars_eq Let_def)

lemma append_rows_eq: "append_rows sky_rows sky = sky_rows @ map grid_row sky"
  by (induction sky arbitrary: sky_rows) (simp_all add: grid_row_def)

lemma print_legend_eq: "print_legend out objs = out @ legend_text objs"
  by (induction objs arbitrary: out) (simp_all add: py_print_def legend_text_def)

lemma write_legend_eq: "write_legend content objs = content @ legend_text objs"
  by (induction objs arbitrary: content) (simp_all add: file_write_def legend_text_def)

lemma str_replace_absent: "c \<notin> set s \<Longrightarrow> str_replace [c] new s = s"
proof (induction s)
  case Nil
  then show ?case by (simp add: str_replace.simps)
next
  case (Cons a s)
  then show ?case by (subst str_replace.simps) (auto simp: take_Suc_conv_app_nth)
qed

subsection \<open>Writing into the array\<close>

lemma place_object_outside:
  "\<not> in_grid n (cell_of n obj) \<Longrightarrow> place_object n sky obj = Inr sky"
  by (auto simp: place_object_def in_grid_def cell_of_def split: prod.splits)

lemma setitem_inside:
  assumes "wf_grid n sky" "in_grid n (x, y)"
  shows "setitem sky y x v = Inr (sky[nat y := (sky ! nat y)[nat x := take 1 v]])"
proof -
  have y: "np_index (length sky) y = Inr (nat y)"
    using assms by (auto simp: np_index_def wf_grid_def in_grid_def)
  have "nat y < length sky" using assms by (auto simp: wf_grid_def in_grid_def)
  then have "length (sky ! nat y) = nat n"
    using assms(1) by (simp add: wf_grid_def list_all_length)
  then have x: "np_index (length (sky ! nat y)) x = Inr (nat x)"
    using assms by (auto simp: np_index_def wf_grid_def in_grid_def)
  show ?thesis by (simp add: setitem_def y x)
qed

lemma place_object_paint:
  assumes "wf_grid n sky"
  shows "place_object n sky obj = Inr (paint n sky obj)"
proof (cases "in_grid n (cell_of n obj)")
  case False
  then show ?thesis by (simp add: place_object_outside paint_def)
next
  case True
  obtain x y where c: "cell_of n obj = (x, y)" by (cases "cell_of n obj")
  with True have "in_grid n (x, y)" by simp
  then have "setitem sky y x (symbol obj) =
      Inr (sky[nat y := (sky ! nat y)[nat x := take 1 (symbol obj)]])"
    using assms by (rule setitem_inside[rotated])
  moreover have "project (az obj) (alt obj) n = (x, y)" using c by (simp add: cell_of_def)
  ultimately show ?thesis using True c
    by (simp add: place_object_def paint_def in_grid_def)
qed

lemma wf_grid_update:
  assumes "wf_grid n sky"
  shows "wf_grid n (sky[j := (sky ! j)[i := v]])"
proof -
  have "length ((sky[j := (sky ! j)[i := v]]) ! k) = nat n" if "k < nat n" for k
    using assms that by (cases "k = j") (simp_all add: wf_grid_def list_all_length)
  then show ?thesis using assms by (simp add: wf_grid_def list_all_length)
qed

lemma wf_grid_paint: "wf_grid n sky \<Longrightarrow> wf_grid n (paint n sky obj)"
  by (simp add: paint_def wf_grid_update)

lemma glyph_at_paint:
  assumes "wf_grid n sky" "in_grid n c"
  shows "glyph_at (paint n sky obj) c =
           (if cell_of n obj = c then take 1 (symbol obj) else glyph_at sky c)"
proof (cases "in_grid n (cell_of n obj)")
  case False
  then show ?thesis using assms by (auto simp: paint_def)
next
  case True
  obtain x y where c: "c = (x, y)" by (cases c)
  obtain u v where o: "cell_of n obj = (u, v)" by (cases "cell_of n obj")
  have b: "nat y < length sky" "nat v < length sky" "nat x < length (sky ! nat y)"
      "nat u < length (sky ! nat v)"
    using assms True by (auto simp: c o wf_grid_def in_grid_def list_all_length)
  have "0 \<le> x" "0 \<le> y" "0 \<le> u" "0 \<le> v" using assms True by (auto simp: c o in_grid_def)
  then have e: "nat y = nat v \<longleftrightarrow> y = v" "nat x = nat u \<longleftrightarrow> x = u" by auto
  show ?thesis using True b e
    by (auto simp: paint_def glyph_at_def c o nth_list_update)
qed

lemma place_objects_foldl:
  "wf_grid n sky \<Longrightarrow> place_objects n sky objs = Inr (foldl (paint n) sky objs)"
  by (induction objs arbitrary: sky) (simp_all add: place_object_paint wf_grid_paint)

lemma wf_grid_foldl: "wf_grid n sky \<Longrightarrow> wf_grid n (foldl (paint n) sky objs)"
  by (induction objs arbitrary: sky) (simp_all add: wf_grid_paint)

lemma glyph_at_foldl:
  "wf_grid n sky \<Longrightarrow> in_grid n c \<Longrightarrow>
   glyph_at (foldl (paint n) sky objs) c =
     (if hits n c objs = [] then glyph_at sky c
      else take 1 (symbol (last (hits n c objs))))"
proof (induction objs rule: rev_induct)
  case Nil
  then show ?case by (simp add: hits_def)
next
  case (snoc obj objs)
  then show ?case
    by (simp add: glyph_at_paint wf_grid_foldl hits_def)
qed

lemma np_full_blank: "0 \<le> n \<Longrightarrow> np_full n (ascii '' '') = Inr (empty_sky n)"
  by (simp add: np_full_def empty_sky_def blank_def ascii_def)

lemma wf_empty_sky: "0 \<le> n \<Longrightarrow> wf_grid n (empty_sky n)"
  by (simp add: wf_grid_def empty_sky_def list_all_length)

lemma glyph_at_empty_sky: "in_grid n c \<Longrightarrow> glyph_at (empty_sky n) c = blank"
  by (auto simp: glyph_at_def empty_sky_def in_grid_def)

lemma build_sky_eq:
  "0 \<le> n \<Longrightarrow> build_sky n objs = Inr (foldl (paint n) (empty_sky n) objs)"
  by (simp add: build_sky_def np_full_blank place_objects_foldl wf_empty_sky)

lemma build_sky_negative: "n < 0 \<Longrightarrow> build_sky n objs = Inl ValueError"
  by (simp add: build_sky_def np_full_def)

subsection \<open>The example observations\<close>

lemma night_objects:
  "alt_deg p > 0 \<Longrightarrow>
   collect_objects (transform_to (night p)) [vega] (sun (night p)) (moon (night p)) =
     [star_object vega p]"
  by (simp add: collect_objects_eq night_def star_at_def)

lemma cell_zenith: "cell_of 50 (star_object vega zenith) = (25, 25)"
  by (simp add: cell_of_def star_object_def zenith_def project_def py_round_def radians_def
      Let_def)

lemma cell_low_east: "cell_of 50 (star_object vega low_east) = (50, 25)"
  by (simp add: cell_of_def star_object_def low_east_def project_def py_round_def radians_def
      Let_def)

section \<open>The polar projector\<close>



subsection \<open>Cells of the finished array\<close>

lemma collect_objects_symbol:
  "obj \<in> set (collect_objects tr catalog s m) \<Longrightarrow>
   symbol obj = [star_glyph] \<or> symbol obj = [sun_glyph] \<or> symbol obj = [moon_glyph]"
  by (auto simp: collect_objects_eq star_object_def sun_object_def moon_object_def
      split: if_splits)

lemma hits_last:
  "hits n c objs \<noteq> [] \<Longrightarrow> last (hits n c objs) \<in> set objs \<and> cell_of n (last (hits n c objs)) = c"
proof -
  assume a: "hits n c objs \<noteq> []"
  then have "last (hits n c objs) \<in> set (hits n c objs)" by (rule last_in_set)
  then show ?thesis by (simp add: hits_def)
qed

lemma build_sky_cell:
  "in_grid n c \<Longrightarrow>
   build_sky n objs = Inr (foldl (paint n) (empty_sky n) objs) \<and>
   glyph_at (foldl (paint n) (empty_sky n) objs) c =
     (if hits n c objs = [] then blank else take 1 (symbol (last (hits n c objs))))"
proof -
  assume c: "in_grid n c"
  then have n: "0 \<le> n" by (simp add: in_grid_def)
  show ?thesis using c n
    by (simp add: build_sky_eq glyph_at_foldl wf_empty_sky glyph_at_empty_sky)
qed

lemma paint_outside: "\<not> in_grid n (cell_of n obj) \<Longrightarrow> paint n sky obj = sky"
  by (simp add: paint_def)

lemma build_sky_skip:
  "\<not> in_grid n (cell_of n obj) \<Longrightarrow>
   build_sky n (before @ obj # after) = build_sky n (before @ after)"
proof (cases "0 \<le> n")
  case True
  assume "\<not> in_grid n (cell_of n obj)"
  then show ?thesis using True by (simp add: build_sky_eq paint_outside)
next
  case False
  then show ?thesis by (simp add: build_sky_negative)
qed

subsection \<open>Bounds of the projection\<close>

lemma radius_bounds:
  assumes "0 \<le> alt_d" "alt_d \<le> 90" "0 \<le> n"
  shows "0 \<le> (90 - alt_d) / 90 * (real_of_int n / 2)"
    and "(90 - alt_d) / 90 * (real_of_int n / 2) \<le> real_of_int n / 2"
proof -
  have f: "0 \<le> (90 - alt_d) / 90" "(90 - alt_d) / 90 \<le> 1" using assms by simp_all
  have h: "0 \<le> real_of_int n / 2" using assms by simp
  show "0 \<le> (90 - alt_d) / 90 * (real_of_int n / 2)" using f h by simp
  show "(90 - alt_d) / 90 * (real_of_int n / 2) \<le> real_of_int n / 2"
    using mult_right_mono [OF f(2) h] by simp
qed

lemma offset_bounds:
  assumes "0 \<le> r" "\<bar>t\<bar> \<le> (1::real)"
  shows "\<bar>r * t\<bar> \<le> r"
proof -
  have "\<bar>r * t\<bar> = r * \<bar>t\<bar>" using assms by (simp add: abs_mult)
  also have "\<dots> \<le> r * 1" using assms by (intro mult_left_mono) simp_all
  finally show ?thesis by simp
qed

section \<open>The visibility filter\<close>

text \<open>
  C2. An object is in the list \<open>objects\<close> exactly when its class-specific check of
  section 4.2 holds: a catalogue star for an altitude above 0, the Sun for an altitude
  above -18, the Moon for an altitude above 0. The legend has one line for each element
  of that list and nothing else, and every cell of the array that is not blank holds the
  symbol of an element of that list which projects there. So an object that fails its
  check is in neither the legend nor the grid.
\<close>

theorem visibility_filter:
  "(obj \<in> set (collect_objects tr catalog s m) \<longleftrightarrow>
      (\<exists>st \<in> set catalog. spec_is_visible Star (alt_deg (star_at tr st)) \<and>
          obj = star_object st (star_at tr st)) \<or>
      (spec_is_visible Sun (alt_deg s) \<and> obj = sun_object s) \<or>
      (spec_is_visible Moon (alt_deg m) \<and> obj = moon_object m)) \<and>
   print_legend out (collect_objects tr catalog s m) =
     out @ concat (map (\<lambda>obj. legend_line obj @ [newline]) (collect_objects tr catalog s m)) \<and>
   (build_sky n (collect_objects tr catalog s m) = Inr sky \<and> in_grid n c \<and>
      glyph_at sky c \<noteq> blank \<longrightarrow>
      (\<exists>obj \<in> set (collect_objects tr catalog s m). cell_of n obj = c \<and> glyph_at sky c = symbol obj))"
proof -
  let ?objs = "collect_objects tr catalog s m"
  have a: "obj \<in> set ?objs \<longleftrightarrow>
      (\<exists>st \<in> set catalog. spec_is_visible Star (alt_deg (star_at tr st)) \<and>
          obj = star_object st (star_at tr st)) \<or>
      (spec_is_visible Sun (alt_deg s) \<and> obj = sun_object s) \<or>
      (spec_is_visible Moon (alt_deg m) \<and> obj = moon_object m)"
    by (auto simp: collect_objects_eq)
  have b: "print_legend out ?objs = out @ concat (map (\<lambda>obj. legend_line obj @ [newline]) ?objs)"
    by (simp add: print_legend_eq legend_text_def)
  have c: "\<exists>obj \<in> set ?objs. cell_of n obj = c \<and> glyph_at sky c = symbol obj"
    if h: "build_sky n ?objs = Inr sky" "in_grid n c" "glyph_at sky c \<noteq> blank"
  proof -
    from build_sky_cell [OF h(2), of ?objs] h(1)
    have g: "glyph_at sky c =
        (if hits n c ?objs = [] then blank else take 1 (symbol (last (hits n c ?objs))))"
      by simp
    with h(3) have ne: "hits n c ?objs \<noteq> []" by auto
    then have l: "last (hits n c ?objs) \<in> set ?objs" "cell_of n (last (hits n c ?objs)) = c"
      using hits_last by blast+
    from collect_objects_symbol [OF l(1)]
    have "take 1 (symbol (last (hits n c ?objs))) = symbol (last (hits n c ?objs))" by auto
    with g ne l show ?thesis by auto
  qed
  show ?thesis using a b c by blast
qed

theorem visibility_filter_witness:
  "star_object vega zenith \<in>
     set (collect_objects (transform_to (night zenith)) [vega] (sun (night zenith)) (moon (night zenith))) \<and>
   sun_object (sun (night zenith)) \<notin>
     set (collect_objects (transform_to (night zenith)) [vega] (sun (night zenith)) (moon (night zenith))) \<and>
   build_sky 50 (collect_objects (transform_to (night zenith)) [vega] (sun (night zenith)) (moon (night zenith)))
     = Inr (paint 50 (empty_sky 50) (star_object vega zenith)) \<and>
   in_grid 50 (25, 25) \<and>
   glyph_at (paint 50 (empty_sky 50) (star_object vega zenith)) (25, 25) \<noteq> blank \<and>
   glyph_at (paint 50 (empty_sky 50) (star_object vega zenith)) (25, 25) = [star_glyph]"
proof -
  let ?objs = "collect_objects (transform_to (night zenith)) [vega] (sun (night zenith)) (moon (night zenith))"
  let ?sky = "paint 50 (empty_sky 50) (star_object vega zenith)"
  have o: "?objs = [star_object vega zenith]"
    by (rule night_objects) (simp add: zenith_def)
  have b: "build_sky 50 ?objs = Inr ?sky" by (simp add: o build_sky_eq)
  have i: "in_grid 50 (25, 25)" by (simp add: in_grid_def)
  have g: "glyph_at ?sky (25, 25) = [star_glyph]"
    using i by (simp add: glyph_at_paint wf_empty_sky cell_zenith) (simp add: star_object_def)
  have ne: "glyph_at ?sky (25, 25) \<noteq> blank"
    by (simp add: g blank_def ascii_def star_glyph_def)
  have v: "\<not> spec_is_visible Sun (alt_deg (sun (night zenith)))" by (simp add: night_def)
  have d: "sun_object (sun (night zenith)) \<noteq> star_object vega zenith"
    by (simp add: sun_object_def star_object_def sun_glyph_def star_glyph_def)
  have m: "\<not> spec_is_visible Moon (alt_deg (moon (night zenith)))" by (simp add: night_def)
  show ?thesis
    using visibility_filter [of "sun_object (sun (night zenith))" "transform_to (night zenith)"
        "[vega]" "sun (night zenith)" "moon (night zenith)" "[]" 50 ?sky "(25, 25)"]
      b i ne g v m o d
    by simp
qed

section \<open>Collisions\<close>

text \<open>
  C3. When at least one object of the list projects to a cell of the grid, the array is
  built without error and the cell holds the symbol of the last such object of the list.
  The list holds the visible catalogue stars in catalogue order, then the Sun, then the
  Moon.
\<close>

theorem last_write_wins:
  "(in_grid n c \<and> hits n c objs \<noteq> [] \<longrightarrow>
      (case build_sky n objs of
         Inl e \<Rightarrow> False
       | Inr sky \<Rightarrow> glyph_at sky c = take 1 (symbol (last (hits n c objs))))) \<and>
   collect_objects tr catalog s m =
     map (\<lambda>st. star_object st (star_at tr st))
       (filter (\<lambda>st. alt_deg (star_at tr st) > 0) catalog)
     @ (if alt_deg s > - 18 then [sun_object s] else [])
     @ (if alt_deg m > 0 then [moon_object m] else [])"
proof -
  have "case build_sky n objs of
         Inl e \<Rightarrow> False
       | Inr sky \<Rightarrow> glyph_at sky c = take 1 (symbol (last (hits n c objs)))"
    if "in_grid n c" "hits n c objs \<noteq> []"
    using build_sky_cell [OF that(1), of objs] that(2) by simp
  then show ?thesis by (simp add: collect_objects_eq)
qed

theorem last_write_wins_witness:
  "in_grid 50 (25, 25) \<and>
   hits 50 (25, 25) [star_object vega zenith, moon_object zenith] \<noteq> [] \<and>
   (case build_sky 50 [star_object vega zenith, moon_object zenith] of
      Inl e \<Rightarrow> False
    | Inr sky \<Rightarrow> glyph_at sky (25, 25) = [moon_glyph]) \<and>
   collect_objects (transform_to (night zenith)) [vega] (sun (night zenith)) (moon (night zenith))
     = [star_object vega zenith]"
proof -
  have m: "cell_of 50 (moon_object zenith) = (25, 25)"
    by (simp add: cell_of_def moon_object_def zenith_def project_def py_round_def radians_def
        Let_def)
  have h: "hits 50 (25, 25) [star_object vega zenith, moon_object zenith] =
      [star_object vega zenith, moon_object zenith]"
    by (simp add: hits_def m cell_zenith)
  have i: "in_grid 50 (25, 25)" by (simp add: in_grid_def)
  have o: "collect_objects (transform_to (night zenith)) [vega] (sun (night zenith))
      (moon (night zenith)) = [star_object vega zenith]"
    by (rule night_objects) (simp add: zenith_def)
  have s: "symbol (moon_object zenith) = [moon_glyph]"
    by (simp add: moon_object_def)
  have ne: "hits 50 (25, 25) [star_object vega zenith, moon_object zenith] \<noteq> []"
    by (simp add: h)
  from last_write_wins [of 50 "(25, 25)" "[star_object vega zenith, moon_object zenith]"
        "transform_to (night zenith)" "[vega]" "sun (night zenith)" "moon (night zenith)"] i ne
  have "case build_sky 50 [star_object vega zenith, moon_object zenith] of
      Inl e \<Rightarrow> False
    | Inr sky \<Rightarrow> glyph_at sky (25, 25) =
        take 1 (symbol (last (hits 50 (25, 25) [star_object vega zenith, moon_object zenith])))"
    by blast
  then show ?thesis using i ne o by (auto simp: h s split: sum.splits)
qed

section \<open>The guard of line 99\<close>

text \<open>
  C4, as the code has it. For an altitude between 0 and 90 degrees, any azimuth and a
  grid size that is not negative, both coordinates of the projected cell lie between 0
  and \<open>grid_size\<close>, the upper end included. The upper end is reached, so the guard of
  line 99 does drop objects that are above the horizon.
\<close>

theorem projection_within_closed_square:
  assumes "0 \<le> alt_d" "alt_d \<le> 90" "0 \<le> grid_size"
  shows "0 \<le> fst (project az_d alt_d grid_size) \<and> fst (project az_d alt_d grid_size) \<le> grid_size \<and>
         0 \<le> snd (project az_d alt_d grid_size) \<and> snd (project az_d alt_d grid_size) \<le> grid_size"
proof -
  define r where "r = (90 - alt_d) / 90 * (real_of_int grid_size / 2)"
  define h where "h = real_of_int grid_size / 2"
  have r: "0 \<le> r" "r \<le> h" using radius_bounds [OF assms] by (simp_all add: r_def h_def)
  have s: "\<bar>r * sin (radians az_d)\<bar> \<le> r" using r(1) by (rule offset_bounds) simp
  have c: "\<bar>r * cos (radians az_d)\<bar> \<le> r" using r(1) by (rule offset_bounds) simp
  have x: "real_of_int 0 \<le> h + r * sin (radians az_d)"
      "h + r * sin (radians az_d) \<le> real_of_int grid_size"
    using s r by (simp_all add: h_def abs_le_iff)
  have y: "real_of_int 0 \<le> h - r * cos (radians az_d)"
      "h - r * cos (radians az_d) \<le> real_of_int grid_size"
    using c r by (simp_all add: h_def abs_le_iff)
  have p: "project az_d alt_d grid_size =
      (py_round (h + r * sin (radians az_d)), py_round (h - r * cos (radians az_d)))"
    by (simp add: project_def Let_def r_def h_def)
  show ?thesis
    using py_round_lower [OF x(1)] py_round_upper [OF x(2)]
      py_round_lower [OF y(1)] py_round_upper [OF y(2)]
    by (simp add: p)
qed

theorem projection_within_closed_square_witness:
  "(0::real) \<le> 1 \<and> (1::real) \<le> 90 \<and> (0::int) \<le> 50 \<and>
   0 \<le> fst (project 90 1 50) \<and> fst (project 90 1 50) \<le> 50 \<and>
   0 \<le> snd (project 90 1 50) \<and> snd (project 90 1 50) \<le> 50"
  using projection_within_closed_square [of 1 50 90] by simp

text \<open>
  The claim as stated fails: an object at azimuth 90 and altitude 1 on a grid of size 50
  projects to column 50, which is outside the grid.
\<close>

theorem horizon_object_leaves_grid:
  "(0::real) \<le> 90 \<and> (90::real) < 360 \<and> (0::real) \<le> 1 \<and> (1::real) \<le> 90 \<and> (2::int) \<le> 50 \<and>
   project 90 1 50 = (50, 25) \<and> \<not> in_grid 50 (project 90 1 50)"
  by (simp add: project_def py_round_def radians_def Let_def in_grid_def)

text \<open>
  C5. An object whose cell is outside the grid leaves the array as it is and raises
  nothing: the array built from a list with the object is the one built from the list
  without it, and building succeeds for every grid size that is not negative. The legend
  still has the object's line, at its place in the list.
\<close>

theorem outside_dropped_but_listed:
  "\<not> in_grid n (cell_of n obj) \<longrightarrow>
     place_object n sky obj = Inr sky \<and>
     build_sky n (before @ obj # after) = build_sky n (before @ after) \<and>
     (0 \<le> n \<longrightarrow> \<not> isl (build_sky n (before @ obj # after))) \<and>
     print_legend out (before @ obj # after) =
       print_legend out before @ legend_line obj @ [newline] @ legend_text after"
  by (simp add: place_object_outside build_sky_skip build_sky_eq print_legend_eq
      legend_text_def)

theorem outside_dropped_but_listed_witness:
  "\<not> in_grid 50 (cell_of 50 (star_object vega low_east)) \<and>
   place_object 50 (empty_sky 50) (star_object vega low_east) = Inr (empty_sky 50) \<and>
   build_sky 50 [star_object vega low_east] = build_sky 50 [] \<and>
   \<not> isl (build_sky 50 [star_object vega low_east]) \<and>
   print_legend [] [star_object vega low_east] =
     ascii ''- Vega at Azimuth: 90.00'' @ [degree_sign] @ ascii '', Altitude: 1.00'' @
     [degree_sign, newline]"
proof -
  have i: "\<not> in_grid 50 (cell_of 50 (star_object vega low_east))"
    by (simp add: cell_low_east in_grid_def)
  have l: "legend_line (star_object vega low_east) =
      ascii ''- Vega at Azimuth: 90.00'' @ [degree_sign] @ ascii '', Altitude: 1.00'' @
      [degree_sign]"
    by (simp add: legend_line_def star_object_def low_east_def vega_def format_f_def
        py_round_def Let_def digits.simps zfill_def ascii_def)
  show ?thesis
    using outside_dropped_but_listed [of 50 "star_object vega low_east" "empty_sky 50" "[]" "[]"
        "[]"] i
    by (simp add: l legend_text_def build_sky_eq)
qed

section \<open>The rendered map\<close>

subsection \<open>Characters of the map\<close>

lemma known_symbols_collect: "known_symbols (collect_objects tr catalog s m)"
  by (auto simp: known_symbols_def list_all_iff dest: collect_objects_symbol)

lemma glyph_cells_empty: "glyph_cells (empty_sky n)"
  by (simp add: glyph_cells_def empty_sky_def list_all_iff)

lemma glyph_cells_update:
  assumes "glyph_cells sky" "v \<in> {blank, [star_glyph], [sun_glyph], [moon_glyph]}"
  shows "glyph_cells (sky[j := (sky ! j)[i := v]])"
proof (cases "j < length sky")
  case False
  then have "sky[j := (sky ! j)[i := v]] = sky" by (simp add: list_update_beyond)
  then show ?thesis using assms by simp
next
  case True
  have r: "set ((sky ! j)[i := v]) \<subseteq> insert v (set (sky ! j))"
    by (rule set_update_subset_insert)
  have "sky ! j \<in> set sky" using True by simp
  then have "\<forall>cell \<in> set (sky ! j). cell \<in> {blank, [star_glyph], [sun_glyph], [moon_glyph]}"
    using assms(1) by (simp add: glyph_cells_def list_all_iff)
  with r assms(2)
  have n: "\<forall>cell \<in> set ((sky ! j)[i := v]). cell \<in> {blank, [star_glyph], [sun_glyph], [moon_glyph]}"
    by blast
  have "set (sky[j := (sky ! j)[i := v]]) \<subseteq> insert ((sky ! j)[i := v]) (set sky)"
    by (rule set_update_subset_insert)
  then show ?thesis using assms(1) n
    unfolding glyph_cells_def list_all_iff by blast
qed

lemma glyph_cells_paint:
  assumes "glyph_cells sky" "symbol obj \<in> {[star_glyph], [sun_glyph], [moon_glyph]}"
  shows "glyph_cells (paint n sky obj)"
proof -
  have "take 1 (symbol obj) = symbol obj" using assms(2) by auto
  then have "take 1 (symbol obj) \<in> {blank, [star_glyph], [sun_glyph], [moon_glyph]}"
    using assms(2) by auto
  then show ?thesis using assms(1) by (simp add: paint_def glyph_cells_update del: take_Suc_Cons)
qed

lemma glyph_cells_foldl:
  "glyph_cells sky \<Longrightarrow> known_symbols objs \<Longrightarrow> glyph_cells (foldl (paint n) sky objs)"
  by (induction objs arbitrary: sky) (simp_all add: known_symbols_def glyph_cells_paint)

lemma str_mul_single: "str_mul [c] k = replicate (nat k) c"
proof -
  have "concat (replicate j [c]) = replicate j c" for j
    by (induction j) simp_all
  then show ?thesis by (simp add: str_mul_def)
qed

lemma render_eq:
  "render n sky = str_join [newline] ([border n] @ map grid_row sky @ [border n])"
  by (simp add: render_def Let_def append_rows_eq border_def str_mul_single ascii_def)

lemma set_str_join: "set (str_join sep ps) \<subseteq> set sep \<union> \<Union> (set ` set ps)"
  by (induction sep ps rule: str_join.induct) auto

lemma set_border: "set (border n) \<subseteq> map_alphabet"
  by (auto simp: border_def map_alphabet_def ascii_def)

lemma set_grid_row:
  assumes "list_all (\<lambda>cell. cell \<in> {blank, [star_glyph], [sun_glyph], [moon_glyph]}) row"
  shows "set (grid_row row) \<subseteq> map_alphabet"
proof -
  have "set cell \<subseteq> map_alphabet" if "cell \<in> set row" for cell
  proof -
    from assms that have "cell \<in> {blank, [star_glyph], [sun_glyph], [moon_glyph]}"
      by (simp add: list_all_iff)
    then show ?thesis by (auto simp: map_alphabet_def blank_def ascii_def)
  qed
  then have "set (concat row) \<subseteq> map_alphabet" by auto
  then show ?thesis by (auto simp: grid_row_def map_alphabet_def ascii_def)
qed

lemma set_render: "glyph_cells sky \<Longrightarrow> set (render n sky) \<subseteq> map_alphabet"
proof -
  assume g: "glyph_cells sky"
  have r: "set (grid_row row) \<subseteq> map_alphabet" if "row \<in> set sky" for row
  proof (rule set_grid_row)
    show "list_all (\<lambda>cell. cell \<in> {blank, [star_glyph], [sun_glyph], [moon_glyph]}) row"
      using g that by (simp add: glyph_cells_def list_all_iff)
  qed
  have "set p \<subseteq> map_alphabet" if "p \<in> set ([border n] @ map grid_row sky @ [border n])" for p
  proof -
    from that consider "p = border n" | row where "row \<in> set sky" "p = grid_row row" by auto
    then show ?thesis using set_border [of n] r by cases simp_all
  qed
  moreover have "set [newline] \<subseteq> map_alphabet" by (simp add: map_alphabet_def)
  ultimately show ?thesis
    unfolding render_eq using set_str_join [of "[newline]" "[border n] @ map grid_row sky @ [border n]"]
    by blast
qed

lemma colorize_plain: "set sky_map \<subseteq> map_alphabet \<Longrightarrow> colorize c t sky_map = sky_map"
proof -
  assume a: "set sky_map \<subseteq> map_alphabet"
  have "asterisk \<notin> map_alphabet" "old_sun_glyph \<notin> map_alphabet" "old_moon_glyph \<notin> map_alphabet"
    by (simp_all add: map_alphabet_def glyph_defs)
  with a have "asterisk \<notin> set sky_map" "old_sun_glyph \<notin> set sky_map"
      "old_moon_glyph \<notin> set sky_map"
    by blast+
  then show ?thesis by (simp add: colorize_def Let_def str_replace_absent)
qed

subsection \<open>Shape of the finished array\<close>

lemma build_sky_Inr:
  assumes "build_sky n objs = Inr sky"
  shows "0 \<le> n" "sky = foldl (paint n) (empty_sky n) objs" "wf_grid n sky"
proof -
  show n: "0 \<le> n"
  proof (rule ccontr)
    assume "\<not> 0 \<le> n"
    then have "build_sky n objs = Inl ValueError" by (simp add: build_sky_negative)
    with assms show False by simp
  qed
  then show s: "sky = foldl (paint n) (empty_sky n) objs" using assms by (simp add: build_sky_eq)
  show "wf_grid n sky" using n by (simp add: s wf_grid_foldl wf_empty_sky)
qed

lemma build_sky_glyph_cells:
  assumes "build_sky n objs = Inr sky" "known_symbols objs"
  shows "glyph_cells sky"
  using assms(2) by (simp add: build_sky_Inr(2) [OF assms(1)] glyph_cells_foldl glyph_cells_empty)

lemma glyph_cells_unit:
  assumes "glyph_cells sky" "wf_grid n sky"
  shows "list_all (\<lambda>row. length row = nat n \<and> list_all (\<lambda>cell. length cell = 1) row) sky"
proof -
  have "length cell = 1" if "cell \<in> {blank, [star_glyph], [sun_glyph], [moon_glyph]}" for cell
    using that by (auto simp: blank_def ascii_def)
  then show ?thesis using assms
    unfolding glyph_cells_def wf_grid_def list_all_iff by blast
qed

subsection \<open>The report, the file and the whole run\<close>

lemma print_report_eq:
  "print_report env sky_map objs =
     [newline] @ ascii ''Star Map:'' @ [newline] @
     location_line (location env) @ [newline] @
     date_line (observing_time env) @ [newline] @
     sky_map @ [newline] @
     [newline] @ ascii ''Visible Objects:'' @ [newline] @
     legend_text objs"
  by (simp add: print_report_def Let_def py_print_def print_legend_eq)

lemma file_content_eq:
  "file_content env sky_map objs =
     [backslash] @ ascii ''033[1mStar Map:'' @ [backslash] @ ascii ''033[0m'' @ [newline] @
     location_line (location env) @ [newline] @
     date_line (observing_time env) @ [newline] @ [newline] @
     sky_map @ [newline] @
     [newline] @ ascii ''Visible Objects:'' @ [newline] @
     legend_text objs"
  by (simp add: file_content_def Let_def file_write_def write_legend_eq)

lemma file_name_eq:
  "file_name t =
     ascii ''star_map_'' @ zfill 4 (digits (year t)) @ zfill 2 (digits (month t)) @
     zfill 2 (digits (day t)) @ ascii ''_'' @ zfill 2 (digits (hour t)) @
     zfill 2 (digits (minute t)) @ zfill 2 (digits (second t)) @ ascii ''.txt''"
  by (simp add: file_name_def directive_def ascii_def)

lemma date_line_eq:
  "date_line t =
     ascii ''Date and Time (UTC): '' @ zfill 4 (digits (year t)) @ ascii ''-'' @
     zfill 2 (digits (month t)) @ ascii ''-'' @ zfill 2 (digits (day t)) @ ascii '' '' @
     zfill 2 (digits (hour t)) @ ascii '':'' @ zfill 2 (digits (minute t)) @ ascii '':'' @
     zfill 2 (digits (second t))"
  by (simp add: date_line_def directive_def ascii_def)

lemma digits_small: "n < 10 \<Longrightarrow> digits n = [48 + n]"
  by (simp add: digits.simps)

lemma digits_large: "\<not> n < 10 \<Longrightarrow> digits n = digits (n div 10) @ [48 + n mod 10]"
  by (subst digits.simps) simp

lemma zfill_literals:
  "zfill 2 [a] = [48, a]" "zfill 2 [a, b] = [a, b]"
  "zfill 4 [a] = [48, 48, 48, a]" "zfill 4 [a, b, c, d] = [a, b, c, d]"
  by (simp_all add: zfill_def eval_nat_numeral)

lemma night_location: "location_line (location (night p)) =
    ascii ''Location: 51.4769'' @ [degree_sign] @ ascii '' N, -0.0005'' @ [degree_sign] @ ascii '' E''"
  by (simp add: location_line_def night_def format_f_def py_round_def Let_def digits_small
      digits_large zfill_literals ascii_def)

lemma night_sky:
  "build_sky 2 [star_object vega zenith] = Inr [[blank, blank], [blank, [star_glyph]]]"
proof -
  have c: "cell_of 2 (star_object vega zenith) = (1, 1)"
    by (simp add: cell_of_def star_object_def zenith_def project_def py_round_def Let_def)
  have e: "empty_sky 2 = [[blank, blank], [blank, blank]]"
    by (simp add: empty_sky_def numeral_2_eq_2)
  have s: "symbol (star_object vega zenith) = [star_glyph]" by (simp add: star_object_def)
  have "paint 2 [[blank, blank], [blank, blank]] (star_object vega zenith) =
      [[blank, blank], [blank, [star_glyph]]]"
    by (simp add: paint_def c in_grid_def s)
  then show ?thesis by (simp add: build_sky_eq e)
qed

lemma night_map:
  "render 2 [[blank, blank], [blank, [star_glyph]]] =
     ascii ''+--+'' @ [newline] @ ascii ''|  |'' @ [newline] @
     ascii ''| '' @ [star_glyph] @ ascii ''|'' @ [newline] @ ascii ''+--+''"
  by (simp add: render_eq border_def grid_row_def blank_def ascii_def numeral_2_eq_2)

lemma night_date:
  "date_line (observing_time (night p)) = ascii ''Date and Time (UTC): 2024-03-01 21:30:05''"
  by (simp add: date_line_eq night_def digits_small digits_large zfill_literals ascii_def)

lemma night_file_name:
  "file_name (observing_time (night p)) = ascii ''star_map_20240301_213005.txt''"
  by (simp add: file_name_eq night_def digits_small digits_large zfill_literals ascii_def)

lemma night_legend:
  "legend_text [star_object vega zenith] =
     ascii ''- Vega at Azimuth: 0.00'' @ [degree_sign] @ ascii '', Altitude: 90.00'' @
     [degree_sign, newline]"
  by (simp add: legend_text_def legend_line_def star_object_def zenith_def vega_def
      format_f_def py_round_def Let_def digits_small digits_large zfill_literals ascii_def)

lemma generate_from_eq:
  assumes "0 \<le> n"
  shows "generate_from catalog env n save color =
     (let objs = collect_objects (transform_to env) catalog (sun env) (moon env);
          sky_map = render n (foldl (paint n) (empty_sky n) objs)
      in Inr \<lparr>stdout = print_report env sky_map objs @
                 (if save then [newline] @ ascii ''Star map saved to '' @
                    file_name (observing_time env) @ [newline] else []),
              saved = (if save then Some (file_name (observing_time env),
                         file_content env sky_map objs) else None)\<rparr>)"
proof -
  let ?objs = "collect_objects (transform_to env) catalog (sun env) (moon env)"
  let ?sky = "foldl (paint n) (empty_sky n) ?objs"
  have b: "build_sky n ?objs = Inr ?sky" using assms by (rule build_sky_eq)
  have "glyph_cells ?sky" using b known_symbols_collect by (rule build_sky_glyph_cells)
  then have "colorize color (isatty env) (render n ?sky) = render n ?sky"
    by (simp add: colorize_plain set_render)
  then show ?thesis by (simp add: generate_from_def Let_def b py_print_def)
qed

lemma generate_from_negative: "n < 0 \<Longrightarrow> generate_from catalog env n save color = Inl ValueError"
  by (simp add: generate_from_def Let_def build_sky_negative)

lemma night_run:
  "generate_from [vega] (night zenith) 2 save color =
     Inr \<lparr>stdout = night_report @
              (if save then [newline] @ ascii ''Star map saved to star_map_20240301_213005.txt'' @
                 [newline] else []),
          saved = (if save then Some (ascii ''star_map_20240301_213005.txt'', night_file)
                   else None)\<rparr>"
proof -
  have o: "collect_objects (transform_to (night zenith)) [vega] (sun (night zenith))
      (moon (night zenith)) = [star_object vega zenith]"
    by (rule night_objects) (simp add: zenith_def)
  have s: "paint 2 (empty_sky 2) (star_object vega zenith) =
      [[blank, blank], [blank, [star_glyph]]]"
    using night_sky by (simp add: build_sky_eq)
  have r: "print_report (night zenith)
      (render 2 [[blank, blank], [blank, [star_glyph]]]) [star_object vega zenith] = night_report"
    by (simp add: print_report_eq night_map night_location night_date night_legend
        night_report_def night_body_def night_map_text_def night_legend_text_def)
  have f: "file_content (night zenith)
      (render 2 [[blank, blank], [blank, [star_glyph]]]) [star_object vega zenith] = night_file"
    by (simp add: file_content_eq night_map night_location night_date night_legend
        night_file_def night_body_def night_map_text_def night_legend_text_def)
  have a: "ascii ''Star map saved to '' @ ascii ''star_map_20240301_213005.txt'' =
      ascii ''Star map saved to star_map_20240301_213005.txt''"
    by (simp add: ascii_def)
  show ?thesis
    using a by (simp add: generate_from_eq Let_def o s r f night_file_name)
qed

section \<open>The zenith\<close>

text \<open>
  C6, as the code has it. Whatever the azimuth, an object at altitude 90 projects to the
  cell whose two coordinates are \<open>round(grid_size / 2)\<close>, a tie going to the even integer;
  for an even grid size that is the cell \<open>(grid_size / 2, grid_size / 2)\<close>. On a grid of
  size 50 a star at azimuth 0 and altitude 90 is placed at cell \<open>(25, 25)\<close>, and its
  legend line ends in \<open>Azimuth: 0.00\<close>, \<open>Altitude: 90.00\<close>, each followed by a degree sign.
\<close>

theorem zenith_projection:
  "project az_d 90 n = (py_round (of_int n / 2), py_round (of_int n / 2)) \<and>
   (even n \<longrightarrow> project az_d 90 n = (n div 2, n div 2)) \<and>
   (case build_sky 50 [star_object st zenith] of
      Inl e \<Rightarrow> False
    | Inr sky \<Rightarrow> glyph_at sky (25, 25) = [star_glyph]) \<and>
   legend_line (star_object st zenith) =
     ascii ''- '' @ star_name st @ ascii '' at Azimuth: 0.00'' @ [degree_sign] @
     ascii '', Altitude: 90.00'' @ [degree_sign]"
proof -
  have p: "project az_d 90 n = (py_round (of_int n / 2), py_round (of_int n / 2))"
    by (simp add: project_def Let_def)
  have e: "project az_d 90 n = (n div 2, n div 2)" if "even n"
  proof -
    from that obtain k where k: "n = 2 * k" by (elim evenE)
    then have "real_of_int n / 2 = of_int k" by simp
    then have "py_round (real_of_int n / 2) = k" by (simp only: py_round_of_int)
    moreover have "n div 2 = k" using k by simp
    ultimately show ?thesis by (simp only: p)
  qed
  have c: "cell_of 50 (star_object st zenith) = (25, 25)"
    by (simp add: cell_of_def star_object_def zenith_def project_def py_round_def Let_def)
  have i: "in_grid 50 (25, 25)" by (simp add: in_grid_def)
  have g: "glyph_at (paint 50 (empty_sky 50) (star_object st zenith)) (25, 25) = [star_glyph]"
    using i by (simp add: glyph_at_paint wf_empty_sky c) (simp add: star_object_def)
  have b: "case build_sky 50 [star_object st zenith] of
      Inl e \<Rightarrow> False
    | Inr sky \<Rightarrow> glyph_at sky (25, 25) = [star_glyph]"
    by (simp add: build_sky_eq g)
  have l: "legend_line (star_object st zenith) =
     ascii ''- '' @ star_name st @ ascii '' at Azimuth: 0.00'' @ [degree_sign] @
     ascii '', Altitude: 90.00'' @ [degree_sign]"
    by (simp add: legend_line_def star_object_def zenith_def format_f_def py_round_def Let_def
        digits.simps zfill_def ascii_def)
  show ?thesis using p e b l by blast
qed

theorem zenith_projection_witness:
  "even (50::int) \<and> project 123 90 50 = (25, 25) \<and>
   legend_line (star_object vega zenith) =
     ascii ''- Vega at Azimuth: 0.00'' @ [degree_sign] @ ascii '', Altitude: 90.00'' @
     [degree_sign]"
proof -
  have "py_round 25 = 25" using py_round_of_int [of 25] by simp
  then show ?thesis
    using zenith_projection [of 123 50 vega] by (simp add: vega_def ascii_def)
qed

text \<open>
  The claim as stated fails for an odd grid size: on a grid of size 7 the zenith goes to
  cell \<open>(4, 4)\<close>, which is neither \<open>7 / 2\<close> nor the centre cell \<open>(3, 3)\<close>.
\<close>

theorem zenith_off_centre_on_odd_grid:
  "project 0 90 7 = (4, 4) \<and> fst (project 0 90 7) \<noteq> 7 div 2 \<and>
   real_of_int (fst (project 0 90 7)) \<noteq> 7 / 2"
  by (simp add: project_def py_round_def Let_def)

section \<open>The bordered block\<close>

text \<open>
  C7, as the code has it. For every grid size \<open>N\<close> that is not negative and every list of
  visible objects, the array is built without error and the rendered map is the top
  border \<open>+\<close>, \<open>N\<close> times \<open>-\<close>, \<open>+\<close>, then one line \<open>|\<close>, row, \<open>|\<close> for each of the \<open>N\<close> rows,
  each row having \<open>N\<close> cells of one glyph, then the same border, the lines joined by
  newlines. With no objects every cell is blank and the legend prints nothing.
\<close>

theorem rendered_map_shape:
  assumes "0 \<le> n"
  shows "(case build_sky n (collect_objects tr catalog s m) of
           Inl e \<Rightarrow> False
         | Inr sky \<Rightarrow>
             render n sky = str_join [newline] ([border n] @ map grid_row sky @ [border n]) \<and>
             length sky = nat n \<and>
             list_all (\<lambda>row. length row = nat n \<and> list_all (\<lambda>cell. length cell = 1) row) sky) \<and>
         build_sky n [] = Inr (replicate (nat n) (replicate (nat n) blank)) \<and>
         print_legend out [] = out"
proof -
  let ?objs = "collect_objects tr catalog s m"
  let ?sky = "foldl (paint n) (empty_sky n) ?objs"
  have b: "build_sky n ?objs = Inr ?sky" using assms by (rule build_sky_eq)
  have w: "wf_grid n ?sky" using b by (rule build_sky_Inr(3))
  have g: "glyph_cells ?sky" using b known_symbols_collect by (rule build_sky_glyph_cells)
  have "length ?sky = nat n" using w by (simp add: wf_grid_def)
  moreover have "list_all (\<lambda>row. length row = nat n \<and> list_all (\<lambda>cell. length cell = 1) row) ?sky"
    using g w by (rule glyph_cells_unit)
  moreover have "build_sky n [] = Inr (replicate (nat n) (replicate (nat n) blank))"
    using assms by (simp add: build_sky_eq empty_sky_def)
  ultimately show ?thesis by (simp add: b render_eq)
qed

theorem rendered_map_shape_witness:
  "(0::int) \<le> 2 \<and>
   build_sky 2 (collect_objects (transform_to (night zenith)) [vega] (sun (night zenith))
     (moon (night zenith))) = Inr [[blank, blank], [blank, [star_glyph]]] \<and>
   render 2 [[blank, blank], [blank, [star_glyph]]] =
     ascii ''+--+'' @ [newline] @ ascii ''|  |'' @ [newline] @
     ascii ''| '' @ [star_glyph] @ ascii ''|'' @ [newline] @ ascii ''+--+'' \<and>
   build_sky 2 [] = Inr [[blank, blank], [blank, blank]]"
proof -
  have o: "collect_objects (transform_to (night zenith)) [vega] (sun (night zenith))
      (moon (night zenith)) = [star_object vega zenith]"
    by (rule night_objects) (simp add: zenith_def)
  have j: "str_join [newline] ([border 2] @ map grid_row [[blank, blank], [blank, [star_glyph]]]
        @ [border 2]) =
      ascii ''+--+'' @ [newline] @ ascii ''|  |'' @ [newline] @
      ascii ''| '' @ [star_glyph] @ ascii ''|'' @ [newline] @ ascii ''+--+''"
    by (simp add: border_def grid_row_def blank_def ascii_def numeral_2_eq_2)
  have z: "(0::int) \<le> 2" by simp
  note t = rendered_map_shape [OF z, of "transform_to (night zenith)" "[vega]"
        "sun (night zenith)" "moon (night zenith)" "[]"]
  from t have c: "case build_sky 2 (collect_objects (transform_to (night zenith)) [vega]
        (sun (night zenith)) (moon (night zenith))) of
      Inl e \<Rightarrow> False
    | Inr sky \<Rightarrow>
        render 2 sky = str_join [newline] ([border 2] @ map grid_row sky @ [border 2]) \<and>
        length sky = nat 2 \<and>
        list_all (\<lambda>row. length row = nat 2 \<and> list_all (\<lambda>cell. length cell = 1) row) sky"
    by (rule conjunct1)
  from c [unfolded o night_sky sum.case]
  have "render 2 [[blank, blank], [blank, [star_glyph]]] =
      str_join [newline] ([border 2] @ map grid_row [[blank, blank], [blank, [star_glyph]]]
        @ [border 2])"
    by (rule conjunct1)
  then have r: "render 2 [[blank, blank], [blank, [star_glyph]]] =
      ascii ''+--+'' @ [newline] @ ascii ''|  |'' @ [newline] @
      ascii ''| '' @ [star_glyph] @ ascii ''|'' @ [newline] @ ascii ''+--+''"
    by (simp only: j)
  from t have "build_sky 2 [] = Inr (replicate (nat 2) (replicate (nat 2) blank))" by blast
  then have e: "build_sky 2 [] = Inr [[blank, blank], [blank, blank]]"
    by (simp add: numeral_2_eq_2)
  have b: "build_sky 2 (collect_objects (transform_to (night zenith)) [vega] (sun (night zenith))
     (moon (night zenith))) = Inr [[blank, blank], [blank, [star_glyph]]]"
    by (simp only: o night_sky)
  from z b r e show ?thesis by (intro conjI)
qed

text \<open>
  The claim as stated fails for a negative grid size: numpy refuses the array and the run
  ends with \<open>ValueError\<close> before anything is rendered.
\<close>

theorem negative_grid_size_raises:
  "build_sky (- 1) [] = Inl ValueError \<and>
   generate_from [] (night zenith) (- 1) False False = Inl ValueError \<and>
   generate_star_map (night zenith) (- 1) False False = Inl ValueError"
  by (simp add: build_sky_negative generate_from_negative generate_star_map_def)

section \<open>Colour\<close>

text \<open>
  C8. The claim does not hold on the code. With colour enabled and standard output a
  terminal, the run on \<open>night zenith\<close> prints the star symbol, and the printed report
  contains no escape character at all: the symbol is not wrapped in any ANSI code.
\<close>

theorem symbols_left_uncoloured:
  "isatty (night zenith) \<and>
   generate_from [vega] (night zenith) 2 False True =
     Inr \<lparr>stdout = night_report, saved = None\<rparr> \<and>
   star_glyph \<in> set night_report \<and> esc \<notin> set night_report"
proof -
  have "isatty (night zenith)" by (simp add: night_def)
  moreover have "star_glyph \<in> set night_report"
    by (simp add: night_report_def night_map_text_def)
  moreover have "esc \<notin> set night_report"
    by (simp add: night_report_def night_body_def night_map_text_def night_legend_text_def
        ascii_def glyph_defs)
  ultimately show ?thesis by (simp add: night_run)
qed

text \<open>
  C10. The result of a run is the same with colour output enabled and disabled. The
  rendered map holds only the border characters, the blank, the newline and the three
  symbols of lines 65, 73 and 80; the three characters that the replacement of lines 113
  to 115 searches for are not among them, so the replacement leaves the map as it is.
\<close>

theorem colour_flag_without_effect:
  "generate_from catalog env n save True = generate_from catalog env n save False \<and>
   generate_star_map env n save True = generate_star_map env n save False \<and>
   (case build_sky n (collect_objects tr catalog s m) of
      Inl e \<Rightarrow> True
    | Inr sky \<Rightarrow>
        set (render n sky) \<subseteq> map_alphabet \<and> colorize c t (render n sky) = render n sky) \<and>
   asterisk \<notin> map_alphabet \<and> old_sun_glyph \<notin> map_alphabet \<and> old_moon_glyph \<notin> map_alphabet"
proof -
  have g: "generate_from cat env n save True = generate_from cat env n save False" for cat
  proof (cases "0 \<le> n")
    case True
    then show ?thesis by (simp add: generate_from_eq)
  next
    case False
    then show ?thesis by (simp add: generate_from_negative)
  qed
  have r: "set (render n sky) \<subseteq> map_alphabet \<and> colorize c t (render n sky) = render n sky"
    if "build_sky n (collect_objects tr catalog s m) = Inr sky" for sky
  proof -
    have "glyph_cells sky" using that known_symbols_collect by (rule build_sky_glyph_cells)
    then have "set (render n sky) \<subseteq> map_alphabet" by (rule set_render)
    then show ?thesis by (simp add: colorize_plain)
  qed
  have a: "asterisk \<notin> map_alphabet" "old_sun_glyph \<notin> map_alphabet"
      "old_moon_glyph \<notin> map_alphabet"
    by (simp_all add: map_alphabet_def glyph_defs)
  show ?thesis using g r a by (simp add: generate_star_map_def split: sum.splits)
qed

theorem colour_flag_without_effect_witness:
  "generate_from [vega] (night zenith) 2 False True =
     Inr \<lparr>stdout = night_report, saved = None\<rparr> \<and>
   generate_from [vega] (night zenith) 2 False False =
     Inr \<lparr>stdout = night_report, saved = None\<rparr> \<and>
   colorize True True (render 2 [[blank, blank], [blank, [star_glyph]]]) =
     render 2 [[blank, blank], [blank, [star_glyph]]]"
proof -
  have o: "collect_objects (transform_to (night zenith)) [vega] (sun (night zenith))
      (moon (night zenith)) = [star_object vega zenith]"
    by (rule night_objects) (simp add: zenith_def)
  note t = colour_flag_without_effect [where catalog = "[vega]" and env = "night zenith"
      and n = 2 and save = False and tr = "transform_to (night zenith)"
      and s = "sun (night zenith)" and m = "moon (night zenith)" and c = True and t = True]
  from t have e: "generate_from [vega] (night zenith) 2 False True =
      generate_from [vega] (night zenith) 2 False False"
    by (rule conjunct1)
  from t have "case build_sky 2 (collect_objects (transform_to (night zenith)) [vega]
        (sun (night zenith)) (moon (night zenith))) of
      Inl e \<Rightarrow> True
    | Inr sky \<Rightarrow> set (render 2 sky) \<subseteq> map_alphabet \<and>
        colorize True True (render 2 sky) = render 2 sky"
    by blast
  from this [unfolded o night_sky sum.case]
  have c: "colorize True True (render 2 [[blank, blank], [blank, [star_glyph]]]) =
      render 2 [[blank, blank], [blank, [star_glyph]]]"
    by (rule conjunct2)
  have f: "generate_from [vega] (night zenith) 2 False False =
      Inr \<lparr>stdout = night_report, saved = None\<rparr>"
    by (simp add: night_run)
  from e f c show ?thesis by simp
qed

section \<open>The saved file\<close>




end
